theory Spec2Isabelle
  imports Complex_Main "HOL-Library.Word"
begin

section \<open>Data model of \<open>main.go\<close>\<close>

text \<open>
  The release workflow builds the program for linux/amd64 and linux/arm64, where Go's
  \<open>int\<close> is a 64-bit two's complement integer: \<open>+\<close> and \<open>-\<close> wrap, \<open><\<close> and \<open>>\<close>
  compare the signed values (\<open><s\<close> on words).
\<close>

type_synonym go_int = "64 word"

text \<open>
  A \<open>float64\<close> is a finite real, an infinity, or a NaN. Every finite binary64 value is a
  real number (the two zeros compare equal, so they are one value here); the reals that
  are not binary64 values are extra inhabitants, so a statement proved for every
  \<open>float64\<close> of this type holds for every \<open>float64\<close> of Go. The comparisons are those of
  IEEE 754, which Go's \<open><\<close>, \<open>>\<close> and \<open><=\<close> implement: every comparison with a NaN is
  false. Rounding arithmetic is not defined on this type; where the program adds and
  divides (the average in \<open>fetch\<close>) the operations are parameters.
\<close>

datatype float64 = Fin real | PInf | NInf | NaN

fun f64_lt :: "float64 \<Rightarrow> float64 \<Rightarrow> bool" where
  "f64_lt NaN _ = False"
| "f64_lt _ NaN = False"
| "f64_lt PInf _ = False"
| "f64_lt _ NInf = False"
| "f64_lt NInf _ = True"
| "f64_lt _ PInf = True"
| "f64_lt (Fin a) (Fin b) = (a < b)"

definition f64_gt :: "float64 \<Rightarrow> float64 \<Rightarrow> bool" where
  "f64_gt a b = f64_lt b a"

fun f64_le :: "float64 \<Rightarrow> float64 \<Rightarrow> bool" where
  "f64_le NaN _ = False"
| "f64_le _ NaN = False"
| "f64_le NInf _ = True"
| "f64_le _ PInf = True"
| "f64_le PInf _ = False"
| "f64_le _ NInf = False"
| "f64_le (Fin a) (Fin b) = (a \<le> b)"

text \<open>
  \<open>time.Duration\<close> is an \<open>int64\<close> count of nanoseconds. A \<open>time.Time\<close> is an instant; its
  range (64-bit seconds plus nanoseconds) is far wider than that of a \<open>Duration\<close>, so an
  instant is an unbounded count of nanoseconds on one time line.
\<close>

type_synonym duration = "64 word"
type_synonym time = int

text \<open>The \<open>config\<close> struct. \<open>Min\<close> and \<open>Max\<close> are constants of HOL, hence the suffix.\<close>

record config =
  Token :: string
  ServiceID :: string
  High :: float64
  Low :: float64
  Min_cfg :: go_int
  Max_cfg :: go_int
  Cooldown :: duration
  Interval :: duration

section \<open>The decision function\<close>

text \<open>
  \<^verbatim>\<open>
  func decide(cpu float64, replicas int, cfg config) int {
      switch {
      case cpu > cfg.High && replicas < cfg.Max:
          return replicas + 1
      case cpu < cfg.Low && replicas > cfg.Min:
          return replicas - 1
      default:
          return replicas
      }
  }
  \<close>
  A \<open>switch\<close> with no tag tries its cases from the top and runs the first whose condition
  is true.
\<close>

definition decide :: "float64 \<Rightarrow> go_int \<Rightarrow> config \<Rightarrow> go_int" where
  "decide cpu replicas cfg =
     (if f64_gt cpu (High cfg) \<and> replicas <s Max_cfg cfg then replicas + 1
      else if f64_lt cpu (Low cfg) \<and> Min_cfg cfg <s replicas then replicas - 1
      else replicas)"

section \<open>Errors and the remote exchange\<close>

text \<open>
  A Go \<open>error\<close> value. \<open>ErrSyntax\<close> and \<open>ErrRange\<close> are the two errors of package
  \<open>strconv\<close>; every other error (network, JSON decoding) carries its message.
\<close>

datatype error = ErrSyntax | ErrRange | ErrOther string

text \<open>
  \<open>doGraphQL\<close> posts one request and decodes the response body into \<open>into\<close>. What the
  network and the JSON decoder do is the environment's part; it is given by the outcome
  of the exchange: \<open>http.DefaultClient.Do\<close> returned an error, or it returned a body
  that \<open>json.Decoder.Decode\<close> rejected, or the body decoded into a value of the target
  type. The status code of the response is not looked at by the source, so it is not
  part of the outcome.
  \<^verbatim>\<open>
  res, err := http.DefaultClient.Do(req)
  if err != nil {
      return err
  }
  defer ... Body.Close() ...
  return json.NewDecoder(res.Body).Decode(into)
  \<close>
  The result is the error, or the decoded value now held by \<open>into\<close>. The log lines
  (\<open>log.Printf\<close>) go to standard error and steer nothing; they are left out throughout.
\<close>

datatype 'a http_reply = DoFailed error | DecodeFailed error | Decoded 'a

definition doGraphQL :: "'a http_reply \<Rightarrow> error + 'a" where
  "doGraphQL reply =
     (case reply of
        DoFailed err \<Rightarrow> Inl err
      | DecodeFailed err \<Rightarrow> Inl err
      | Decoded v \<Rightarrow> Inr v)"

section \<open>The metric snapshot\<close>

record metricPoint =
  Cpu :: float64

record instanceMetrics =
  Metrics :: "metricPoint list"

record serviceData =
  Instances :: "instanceMetrics list"
  Replicas :: go_int

record serviceResp =
  Service :: serviceData

record gqlError =
  Message :: string

record gqlResponse =
  Data :: serviceResp
  Errors :: "gqlError list"

record snapshot =
  avgCPU :: float64
  replicas :: go_int

text \<open>
  The binary64 operations \<open>fetch\<close> uses for the average: \<open>+\<close>, \<open>/\<close> and the conversion
  \<open>float64(count)\<close>. They round, so they are parameters of the model.
\<close>

record float_ops =
  f64_add :: "float64 \<Rightarrow> float64 \<Rightarrow> float64"
  f64_div :: "float64 \<Rightarrow> float64 \<Rightarrow> float64"
  f64_of_int :: "go_int \<Rightarrow> float64"

text \<open>
  The two nested loops of \<open>fetch\<close>, over the instances and over the points of each, with
  the pair \<open>(sum, count)\<close> they update:
  \<^verbatim>\<open>
  for _, inst := range resp.Data.Service.Instances {
      for _, p := range inst.Metrics {
          sum += p.Cpu
          count++
      }
  }
  \<close>
\<close>

primrec fetch_points :: "float_ops \<Rightarrow> metricPoint list \<Rightarrow> float64 \<times> go_int \<Rightarrow> float64 \<times> go_int" where
  "fetch_points ops [] acc = acc"
| "fetch_points ops (p # ps) acc =
     fetch_points ops ps (f64_add ops (fst acc) (Cpu p), snd acc + 1)"

primrec fetch_instances :: "float_ops \<Rightarrow> instanceMetrics list \<Rightarrow> float64 \<times> go_int \<Rightarrow> float64 \<times> go_int" where
  "fetch_instances ops [] acc = acc"
| "fetch_instances ops (inst # insts) acc =
     fetch_instances ops insts (fetch_points ops (Metrics inst) acc)"

text \<open>
  \<^verbatim>\<open>
  var resp gqlResponse
  if err := doGraphQL(ctx, query, variables, cfg.Token, &resp); err != nil {
      return snapshot{}
  }
  if len(resp.Errors) > 0 {
      return snapshot{}
  }
  sum := 0.0; count := 0
  ... the loops ...
  avg := 0.0
  if count > 0 {
      avg = sum / float64(count)
  }
  return snapshot{avgCPU: avg, replicas: resp.Data.Service.Replicas}
  \<close>
  The request (the query, the service id and the window of twice the poll interval
  before now) has no influence on what \<open>fetch\<close> does with the reply.
\<close>

definition fetch :: "float_ops \<Rightarrow> gqlResponse http_reply \<Rightarrow> snapshot" where
  "fetch ops reply =
     (case doGraphQL reply of
        Inl err \<Rightarrow> \<lparr>avgCPU = Fin 0, replicas = 0\<rparr>
      | Inr resp \<Rightarrow>
          if length (Errors resp) > 0 then \<lparr>avgCPU = Fin 0, replicas = 0\<rparr>
          else
            let (sum, count) = fetch_instances ops (Instances (Service (Data resp))) (Fin 0, 0);
                avg = (if 0 <s count then f64_div ops sum (f64_of_int ops count) else Fin 0)
            in \<lparr>avgCPU = avg, replicas = Replicas (Service (Data resp))\<rparr>)"

section \<open>The replica-count mutation\<close>

text \<open>
  The request of \<open>scale\<close>: the mutation text and its two variables. The body of the
  response is decoded into a \<open>map[string]interface{}\<close>, a map from the keys of the JSON
  object to JSON values.
\<close>

datatype gqlVar = VString string | VInt go_int

record gqlRequest =
  Query :: string
  Variables :: "string \<rightharpoonup> gqlVar"

datatype json =
    JNull
  | JBool bool
  | JNumber float64
  | JString string
  | JArray "json list"
  | JObject "(string \<times> json) list"

text \<open>
  \<^verbatim>\<open>
  func scale(ctx context.Context, cfg config, desired int) error {
      mutation := `mutation($id:String!,$count:Int!){serviceReplicaScale(...){id}}`
      vars := map[string]interface{}{"id": cfg.ServiceID, "count": desired}
      var out map[string]interface{}
      return doGraphQL(ctx, mutation, vars, cfg.Token, &out)
  }
  \<close>
  The model returns the request that went out together with the error (\<open>None\<close> is
  \<open>nil\<close>). The decoded map \<open>out\<close> is dropped, as in the source.
\<close>

definition scale :: "config \<Rightarrow> go_int \<Rightarrow> (string \<rightharpoonup> json) http_reply \<Rightarrow> gqlRequest \<times> error option" where
  "scale cfg desired reply =
     (\<lparr>Query = ''mutation($id:String!,$count:Int!){serviceReplicaScale(input:{serviceId:$id,replicas:$count}){id}}'',
       Variables = [''id'' \<mapsto> VString (ServiceID cfg), ''count'' \<mapsto> VInt desired]\<rparr>,
      case doGraphQL reply of Inl err \<Rightarrow> Some err | Inr out \<Rightarrow> None)"

section \<open>Time\<close>

text \<open>
  Package \<open>time\<close> as its documentation gives it. \<open>t.Add(d)\<close> is the instant \<open>t + d\<close>.
  \<open>t.Sub(u)\<close> is the duration \<open>t - u\<close>, and "if the result exceeds the maximum (or
  minimum) value that can be stored in a Duration, the maximum (or minimum) duration
  will be returned". \<open>time.Since(t)\<close> is \<open>time.Now().Sub(t)\<close>; the clock reading it takes
  is an argument here. The negation \<open>-d\<close> of a duration is that of \<open>int64\<close>, which leaves
  the minimum unchanged.
\<close>

definition time_Add :: "time \<Rightarrow> duration \<Rightarrow> time" where
  "time_Add t d = t + sint d"

definition time_Sub :: "time \<Rightarrow> time \<Rightarrow> duration" where
  "time_Sub t u =
     (if 2 ^ 63 - 1 < t - u then word_of_int (2 ^ 63 - 1)
      else if t - u < - (2 ^ 63) then word_of_int (- (2 ^ 63))
      else word_of_int (t - u))"

definition time_Since :: "time \<Rightarrow> time \<Rightarrow> duration" where
  "time_Since now t = time_Sub now t"

section \<open>The control loop\<close>

text \<open>
  The state the loop keeps from one cycle to the next is the variable \<open>lastScale\<close>. The
  model adds the list of mutation requests sent so far, to speak of whether \<open>scale\<close> was
  called.
\<close>

record loop_state =
  lastScale :: time
  sent :: "gqlRequest list"

text \<open>
  What the environment does in one cycle: the outcome of the metrics exchange, the clock
  reading taken by \<open>time.Since\<close> in the condition, the outcome the mutation exchange has
  if it is made, and the clock reading taken by \<open>time.Now()\<close> after \<open>scale\<close> returned.
\<close>

record cycle_env =
  fetch_reply :: "gqlResponse http_reply"
  since_clock :: time
  scale_reply :: "(string \<rightharpoonup> json) http_reply"
  now_clock :: time

text \<open>
  The conditional of the loop body, for a desired and a current replica count:
  \<^verbatim>\<open>
  if desired != target.replicas && time.Since(lastScale) > cfg.Cooldown {
      err := scale(ctx, cfg, desired)
      if err == nil {
          lastScale = time.Now()
      } else {
          log.Printf("scale error: %v", err)
      }
  }
  \<close>
\<close>

definition main_actuate :: "config \<Rightarrow> go_int \<Rightarrow> go_int \<Rightarrow> cycle_env \<Rightarrow> loop_state \<Rightarrow> loop_state" where
  "main_actuate cfg desired current env s =
     (if desired \<noteq> current \<and> Cooldown cfg <s time_Since (since_clock env) (lastScale s) then
        (case scale cfg desired (scale_reply env) of
           (req, None) \<Rightarrow> s\<lparr>lastScale := now_clock env, sent := sent s @ [req]\<rparr>
         | (req, Some err) \<Rightarrow> s\<lparr>sent := sent s @ [req]\<rparr>)
      else s)"

text \<open>
  One pass of the \<open>for\<close> loop: \<open>fetch\<close>, \<open>decide\<close>, the conditional. The closing
  \<open>time.Sleep(cfg.Interval)\<close> only lets time pass; the clock readings of the next cycle
  are that cycle's.
\<close>

definition main_cycle :: "config \<Rightarrow> float_ops \<Rightarrow> cycle_env \<Rightarrow> loop_state \<Rightarrow> loop_state" where
  "main_cycle cfg ops env s =
     (let target = fetch ops (fetch_reply env);
          desired = decide (avgCPU target) (replicas target) cfg
      in main_actuate cfg desired (replicas target) env s)"

text \<open>
  The loop never ends. An execution is followed through the cycles of a finite list of
  environments, which is any finite prefix of it.
\<close>

primrec run :: "config \<Rightarrow> float_ops \<Rightarrow> cycle_env list \<Rightarrow> loop_state \<Rightarrow> loop_state" where
  "run cfg ops [] s = s"
| "run cfg ops (env # envs) s = run cfg ops envs (main_cycle cfg ops env s)"

section \<open>Configuration\<close>

text \<open>
  \<open>os.Getenv\<close> returns the empty string for a variable that is not set.
  \<open>log.Fatalf\<close> prints and exits the process with status 1: the only fatal error of the
  program is a missing required variable.
\<close>

type_synonym environ = "string \<Rightarrow> string"

datatype fatal = MissingEnv string

text \<open>
  The three parsers of the standard library that \<open>loadConfig\<close> calls, each returning a
  value and an error. \<open>strconv.Atoi\<close> is modelled below; \<open>strconv.ParseFloat\<close> (with bit
  size 64) and \<open>time.ParseDuration\<close> are parameters.
\<close>

record parsers =
  ParseFloat :: "string \<Rightarrow> float64 \<times> error option"
  Atoi :: "string \<Rightarrow> go_int \<times> error option"
  ParseDuration :: "string \<Rightarrow> duration \<times> error option"

text \<open>
  \<^verbatim>\<open>
  must := func(key string) string {
      v := os.Getenv(key)
      if v == "" {
          log.Fatalf("missing env %s", key)
      }
      return v
  }
  parseF := func(k string, def float64) float64 {
      if v := os.Getenv(k); v != "" {
          f, _ := strconv.ParseFloat(v, 64)
          return f
      }
      return def
  }
  \<close>
  and likewise \<open>parseI\<close> with \<open>strconv.Atoi\<close> and \<open>parseDur\<close> with \<open>time.ParseDuration\<close>.
  The error a parser returns is assigned to the blank identifier.
\<close>

definition must :: "environ \<Rightarrow> string \<Rightarrow> fatal + string" where
  "must env key = (let v = env key in if v = [] then Inl (MissingEnv key) else Inr v)"

definition parseF :: "parsers \<Rightarrow> environ \<Rightarrow> string \<Rightarrow> float64 \<Rightarrow> float64" where
  "parseF lib env k def = (let v = env k in if v \<noteq> [] then fst (ParseFloat lib v) else def)"

definition parseI :: "parsers \<Rightarrow> environ \<Rightarrow> string \<Rightarrow> go_int \<Rightarrow> go_int" where
  "parseI lib env k def = (let v = env k in if v \<noteq> [] then fst (Atoi lib v) else def)"

definition parseDur :: "parsers \<Rightarrow> environ \<Rightarrow> string \<Rightarrow> duration \<Rightarrow> duration" where
  "parseDur lib env k def = (let v = env k in if v \<noteq> [] then fst (ParseDuration lib v) else def)"

text \<open>
  The fields of the composite literal are evaluated in the order written, so a missing
  \<open>RAILWAY_TOKEN\<close> is reported before a missing \<open>SERVICE_ID\<close>. \<open>2*time.Minute\<close> and
  \<open>30*time.Second\<close> are counts of nanoseconds.
\<close>

definition loadConfig :: "parsers \<Rightarrow> environ \<Rightarrow> fatal + config" where
  "loadConfig lib env =
     (case must env ''RAILWAY_TOKEN'' of
        Inl f \<Rightarrow> Inl f
      | Inr token \<Rightarrow>
         (case must env ''SERVICE_ID'' of
            Inl f \<Rightarrow> Inl f
          | Inr service \<Rightarrow>
              Inr \<lparr>Token = token,
                   ServiceID = service,
                   High = parseF lib env ''CPU_HIGH'' (Fin 75),
                   Low = parseF lib env ''CPU_LOW'' (Fin 30),
                   Min_cfg = parseI lib env ''MIN_REPLICAS'' 1,
                   Max_cfg = parseI lib env ''MAX_REPLICAS'' 5,
                   Cooldown = parseDur lib env ''COOLDOWN'' 120000000000,
                   Interval = parseDur lib env ''POLL_INTERVAL'' 30000000000\<rparr>))"

text \<open>
  \<^verbatim>\<open>
  func main() {
      cfg := loadConfig()
      ctx := context.Background()
      lastScale := time.Now().Add(-cfg.Cooldown)
      for { ... }
  }
  \<close>
  \<open>main_start\<close> is the state when the loop is entered, for the clock reading \<open>time.Now()\<close>
  returned. \<open>main\<close> exits on a fatal error of \<open>loadConfig\<close> before that; otherwise it
  runs the cycles.
\<close>

definition main_start :: "config \<Rightarrow> time \<Rightarrow> loop_state" where
  "main_start cfg start_clock = \<lparr>lastScale = time_Add start_clock (- Cooldown cfg), sent = []\<rparr>"

definition main :: "parsers \<Rightarrow> float_ops \<Rightarrow> environ \<Rightarrow> time \<Rightarrow> cycle_env list \<Rightarrow> fatal + loop_state" where
  "main lib ops env start_clock envs =
     (case loadConfig lib env of
        Inl f \<Rightarrow> Inl f
      | Inr cfg \<Rightarrow> Inr (run cfg ops envs (main_start cfg start_clock)))"

section \<open>The integer parser and the inputs of the examples\<close>

text \<open>
  \<open>strconv.Atoi(s)\<close> is \<open>ParseInt(s, 10, 0)\<close> with an \<open>int\<close> result: an optional sign, then
  decimal digits only. The digits are read from the left into an unsigned 64-bit value;
  a byte that is not a digit is a syntax error with value 0, and a value that no longer
  fits 64 bits is a range error, reported at once. A value outside the \<open>int64\<close> range is
  a range error too, and the result is then the nearest \<open>int64\<close>.
\<close>

primrec atoi_digits :: "string \<Rightarrow> nat \<Rightarrow> error + nat" where
  "atoi_digits [] n = Inr n"
| "atoi_digits (c # cs) n =
     (if (of_char c :: nat) < 48 \<or> 57 < (of_char c :: nat) then Inl ErrSyntax
      else if 2 ^ 64 - 1 < n * 10 + (of_char c - 48) then Inl ErrRange
      else atoi_digits cs (n * 10 + (of_char c - 48)))"

definition strconv_Atoi :: "string \<Rightarrow> go_int \<times> error option" where
  "strconv_Atoi s =
     (if s = [] then (0, Some ErrSyntax)
      else
        let neg = (hd s = CHR ''-'');
            ds = (if hd s = CHR ''+'' \<or> hd s = CHR ''-'' then tl s else s)
        in if ds = [] then (0, Some ErrSyntax)
           else
             (case atoi_digits ds 0 of
                Inl ErrSyntax \<Rightarrow> (0, Some ErrSyntax)
              | Inl err \<Rightarrow> (if neg then - (2 ^ 63) else 2 ^ 63 - 1, Some ErrRange)
              | Inr un \<Rightarrow>
                  if \<not> neg \<and> 2 ^ 63 \<le> un then (2 ^ 63 - 1, Some ErrRange)
                  else if neg \<and> 2 ^ 63 < un then (- (2 ^ 63), Some ErrRange)
                  else (if neg then - word_of_nat un else word_of_nat un, None)))"

text \<open>
  The parsers for the examples. Their environments set neither a threshold nor a
  duration, so \<open>loadConfig\<close> calls \<open>strconv.Atoi\<close> only; the two other entries are never
  applied and stand for the library on no input.
\<close>

definition lib_atoi :: parsers where
  "lib_atoi =
     \<lparr>ParseFloat = (\<lambda>s. (Fin 0, Some ErrSyntax)),
      Atoi = strconv_Atoi,
      ParseDuration = (\<lambda>s. (0, Some ErrSyntax))\<rparr>"

text \<open>
  Float operations for the examples: the exact result on finite operands, which is the
  binary64 result whenever that is representable. The examples apply them to no other
  operands.
\<close>

definition ops_exact :: float_ops where
  "ops_exact =
     \<lparr>f64_add = (\<lambda>a b. case (a, b) of (Fin x, Fin y) \<Rightarrow> Fin (x + y) | _ \<Rightarrow> NaN),
      f64_div = (\<lambda>a b. case (a, b) of (Fin x, Fin y) \<Rightarrow> (if y = 0 then NaN else Fin (x / y)) | _ \<Rightarrow> NaN),
      f64_of_int = (\<lambda>n. Fin (real_of_int (sint n)))\<rparr>"

text \<open>
  The configuration \<open>loadConfig\<close> returns when only the two required variables are set:
  thresholds 75 and 30, one to five replicas, a cooldown of two minutes, a poll
  interval of thirty seconds.
\<close>

definition cfg_default :: config where
  "cfg_default =
     \<lparr>Token = ''tok'', ServiceID = ''svc'', High = Fin 75, Low = Fin 30,
      Min_cfg = 1, Max_cfg = 5, Cooldown = 120000000000, Interval = 30000000000\<rparr>"

definition env_required :: environ where
  "env_required = (\<lambda>k. [])(''RAILWAY_TOKEN'' := ''tok'', ''SERVICE_ID'' := ''svc'')"

text \<open>The same environment with a replica minimum that is not a number.\<close>

definition env_unparseable :: environ where
  "env_unparseable =
     (\<lambda>k. [])(''RAILWAY_TOKEN'' := ''tok'', ''SERVICE_ID'' := ''svc'', ''MIN_REPLICAS'' := ''abc'')"

section \<open>Facts about machine integers and float comparisons\<close>

lemma sint_succ_below: "(r::go_int) <s m \<Longrightarrow> sint (r + 1) = sint r + 1"
proof -
  assume "r <s m"
  then have "sint r < sint m" by (simp add: word_sless_alt)
  moreover have "sint m < 2 ^ 63" using sint_lt [of m] by simp
  moreover have "- (2 ^ 63) \<le> sint r" using sint_ge [of r] by simp
  ultimately have "signed_take_bit 63 (sint r + 1) = sint r + 1"
    by (intro signed_take_bit_int_eq_self) simp_all
  then show ?thesis by (simp add: sint_word_ariths)
qed

lemma sint_pred_above: "(m::go_int) <s r \<Longrightarrow> sint (r - 1) = sint r - 1"
proof -
  assume "m <s r"
  then have "sint m < sint r" by (simp add: word_sless_alt)
  moreover have "sint r < 2 ^ 63" using sint_lt [of r] by simp
  moreover have "- (2 ^ 63) \<le> sint m" using sint_ge [of m] by simp
  ultimately have "signed_take_bit 63 (sint r - 1) = sint r - 1"
    by (intro signed_take_bit_int_eq_self) simp_all
  then show ?thesis by (simp add: sint_word_ariths)
qed

lemma f64_le_not_lt: "f64_le a b \<Longrightarrow> \<not> f64_lt b a"
  by (cases a; cases b) simp_all

text \<open>The elapsed time as a number: the difference of the instants, cut to the \<open>int64\<close> range.\<close>

lemma sint_time_Sub:
  "sint (time_Sub t u) =
     (if 2 ^ 63 - 1 < t - u then 2 ^ 63 - 1 else if t - u < - (2 ^ 63) then - (2 ^ 63) else t - u)"
proof -
  have "sint (word_of_int k :: 64 word) = k" if "- (2 ^ 63) \<le> k" and "k < 2 ^ 63" for k :: int
  proof -
    have "signed_take_bit 63 k = k"
      using that by (intro signed_take_bit_int_eq_self) simp_all
    then show ?thesis by (simp add: sint_sbintrunc')
  qed
  from this [of "t - u"] show ?thesis
    by (simp add: time_Sub_def del: of_int_diff)
qed

text \<open>
  The condition \<open>time.Since(lastScale) > cfg.Cooldown\<close>. A cooldown equal to the largest
  duration is never exceeded, since no elapsed time is larger.
\<close>

lemma gate_iff:
  "Cooldown cfg <s time_Since now t \<longleftrightarrow>
     sint (Cooldown cfg) < 2 ^ 63 - 1 \<and> sint (Cooldown cfg) < now - t"
  using sint_lt [of "Cooldown cfg"] sint_ge [of "Cooldown cfg"]
  by (auto simp: word_sless_alt time_Since_def sint_time_Sub)

text \<open>The two ways through the conditional of the loop body.\<close>

lemma main_actuate_closed:
  "\<not> (desired \<noteq> current \<and> Cooldown cfg <s time_Since (since_clock env) (lastScale s)) \<Longrightarrow>
   main_actuate cfg desired current env s = s"
  by (auto simp: main_actuate_def)

lemma main_actuate_open:
  "desired \<noteq> current \<Longrightarrow> Cooldown cfg <s time_Since (since_clock env) (lastScale s) \<Longrightarrow>
   main_actuate cfg desired current env s =
     (case snd (scale cfg desired (scale_reply env)) of
        None \<Rightarrow> s\<lparr>lastScale := now_clock env, sent := sent s @ [fst (scale cfg desired (scale_reply env))]\<rparr>
      | Some err \<Rightarrow> s\<lparr>sent := sent s @ [fst (scale cfg desired (scale_reply env))]\<rparr>)"
  by (simp add: main_actuate_def split: prod.splits option.splits)

text \<open>Negating a duration: the smallest one is its own negation.\<close>

lemma sint_neg_dur: "sint (- d) = (if sint d = - (2 ^ 63) then - (2 ^ 63) else - sint d)" for d :: duration
proof (cases "sint d = - (2 ^ 63)")
  case True
  then have "word_of_int (sint d) = (word_of_int (- (2 ^ 63)) :: duration)" by simp
  then have "d = - 9223372036854775808" by simp
  then show ?thesis by simp
next
  case False
  then have "- (2 ^ 63) < sint d" using sint_ge [of d] by simp
  moreover have "sint d < 2 ^ 63" using sint_lt [of d] by simp
  ultimately have "signed_take_bit 63 (- sint d) = - sint d"
    by (intro signed_take_bit_int_eq_self) simp_all
  with False show ?thesis by (simp add: sint_word_ariths)
qed

text \<open>\<open>scale\<close> returns an error exactly when the exchange or the decoding failed.\<close>

lemma scale_error_iff:
  "snd (scale cfg desired reply) = Some err \<longleftrightarrow> reply = DoFailed err \<or> reply = DecodeFailed err"
  by (cases reply) (simp_all add: scale_def doGraphQL_def)

text \<open>Instances without points leave the sum and the count of \<open>fetch\<close> as they are.\<close>

lemma fetch_instances_no_samples:
  "concat (map Metrics insts) = [] \<Longrightarrow> fetch_instances ops insts acc = acc"
  by (induction insts arbitrary: acc) simp_all

text \<open>\<open>cfg_default\<close> is what \<open>loadConfig\<close> returns when only the required variables are set.\<close>

lemma loadConfig_defaults: "loadConfig lib env_required = Inr cfg_default"
  by (simp add: loadConfig_def must_def parseF_def parseI_def parseDur_def env_required_def
      cfg_default_def)

text \<open>
  The default policy on a utilization of 80, 20 and 50 with two replicas: one more, one
  less, no change.
\<close>

lemma decide_scenarios:
  "decide (Fin 80) 2 cfg_default = 3"
  "decide (Fin 20) 2 cfg_default = 1"
  "decide (Fin 50) 2 cfg_default = 2"
  by (simp_all add: decide_def f64_gt_def cfg_default_def word_sless_alt)

section \<open>Properties of \<open>decide\<close>\<close>

text \<open>
  Claim C1. The three branches of \<open>decide\<close>, in their priority order: when the utilization
  is above the high threshold and the replica count below the maximum, the result is the
  replica count plus one (as a number: the addition does not wrap); otherwise, when the
  utilization is below the low threshold and the replica count above the minimum, it is
  the replica count minus one (again without wrapping); otherwise it is the replica count
  unchanged.
\<close>

theorem decide_branches:
  "decide cpu current cfg =
     (if f64_gt cpu (High cfg) \<and> current <s Max_cfg cfg then current + 1
      else if f64_lt cpu (Low cfg) \<and> Min_cfg cfg <s current then current - 1
      else current) \<and>
   sint (decide cpu current cfg) =
     (if f64_gt cpu (High cfg) \<and> current <s Max_cfg cfg then sint current + 1
      else if f64_lt cpu (Low cfg) \<and> Min_cfg cfg <s current then sint current - 1
      else sint current)"
proof (cases "f64_gt cpu (High cfg) \<and> current <s Max_cfg cfg")
  case True
  then show ?thesis
    using sint_succ_below [of current "Max_cfg cfg"] by (simp add: decide_def)
next
  case up: False
  show ?thesis
  proof (cases "f64_lt cpu (Low cfg) \<and> Min_cfg cfg <s current")
    case True
    with up show ?thesis
      using sint_pred_above [of "Min_cfg cfg" current] by (auto simp: decide_def)
  next
    case False
    with up show ?thesis by (auto simp: decide_def)
  qed
qed

text \<open>
  Claim C4. For every utilization, a replica count within the band from the minimum to
  the maximum is mapped to a replica count within the band.
\<close>

theorem decide_within_band:
  assumes "Min_cfg cfg \<le>s current" and "current \<le>s Max_cfg cfg"
  shows "Min_cfg cfg \<le>s decide cpu current cfg \<and> decide cpu current cfg \<le>s Max_cfg cfg"
proof (cases "f64_gt cpu (High cfg) \<and> current <s Max_cfg cfg")
  case True
  then have "sint (decide cpu current cfg) = sint current + 1"
    using sint_succ_below [of current "Max_cfg cfg"] by (simp add: decide_def)
  with True assms show ?thesis by (simp add: word_sle_eq word_sless_alt)
next
  case up: False
  show ?thesis
  proof (cases "f64_lt cpu (Low cfg) \<and> Min_cfg cfg <s current")
    case True
    with up have "sint (decide cpu current cfg) = sint current - 1"
      using sint_pred_above [of "Min_cfg cfg" current] by (auto simp: decide_def)
    with True assms show ?thesis by (simp add: word_sle_eq word_sless_alt)
  next
    case False
    with up assms show ?thesis by (auto simp: decide_def)
  qed
qed

text \<open>
  Claim C8. Inside the deadband, that is when the low threshold is at most the utilization
  and the utilization at most the high threshold, \<open>decide\<close> returns the replica count
  unchanged, whatever the replica count and the rest of the policy.
\<close>

theorem decide_deadband:
  assumes "f64_le (Low cfg) cpu" and "f64_le cpu (High cfg)"
  shows "decide cpu current cfg = current"
  using assms f64_le_not_lt [of "Low cfg" cpu] f64_le_not_lt [of cpu "High cfg"]
  by (simp add: decide_def f64_gt_def)

theorem decide_within_band_witness:
  "Min_cfg cfg_default \<le>s 5 \<and> 5 \<le>s Max_cfg cfg_default \<and>
   Min_cfg cfg_default \<le>s decide (Fin 80) 5 cfg_default \<and>
   decide (Fin 80) 5 cfg_default \<le>s Max_cfg cfg_default \<and>
   decide (Fin 80) 5 cfg_default = 5"
  using decide_within_band [of cfg_default 5 "Fin 80"]
  by (simp add: cfg_default_def decide_def f64_gt_def word_sle_eq)

theorem decide_deadband_witness:
  "f64_le (Low cfg_default) (Fin 50) \<and> f64_le (Fin 50) (High cfg_default) \<and>
   decide (Fin 50) 2 cfg_default = 2"
  using decide_deadband [of cfg_default "Fin 50" 2]
  by (simp add: cfg_default_def)

section \<open>Properties of the cooldown gate and the actuation\<close>

text \<open>
  Claim C2, as stated, fails for one cooldown. With the largest cooldown a
  \<open>time.Duration\<close> holds (\<open>COOLDOWN=9223372036854775807ns\<close>) the loop starts, at the clock
  reading of 5 s, with \<open>lastScale\<close> = 5 s minus the cooldown. One second later, which is
  \<open>lastScale\<close> plus the cooldown plus 1 s, the elapsed time has saturated at the
  largest duration, which is not greater than the cooldown: a desired change from 2 to 3
  replicas sends no mutation.
\<close>

theorem cooldown_gate_counterexample:
  "sent (main_actuate (cfg_default\<lparr>Cooldown := 9223372036854775807\<rparr>) 3 2
           \<lparr>fetch_reply = DoFailed (ErrOther ''unused''),
            since_clock = (5000000000 - 9223372036854775807) + 9223372036854775807 + 1000000000,
            scale_reply = Decoded Map.empty,
            now_clock = 6000000001\<rparr>
           \<lparr>lastScale = 5000000000 - 9223372036854775807, sent = []\<rparr>) = []"
  by (simp add: main_actuate_def cfg_default_def time_Since_def time_Sub_def)

text \<open>
  Claim C2, amended. With \<open>lastScale = t0\<close> and a desired replica count different from the
  current one, the conditional at the instant \<open>t0 + cooldown - 1s\<close> leaves the state as it
  is (no mutation is sent, the timestamp stays); and for every cooldown below the
  largest duration, the conditional at the instant \<open>t0 + cooldown + 1s\<close> sends the
  mutation.
\<close>

theorem cooldown_gate:
  assumes "desired \<noteq> current" and "lastScale s = t0"
  shows "main_actuate cfg desired current
           (env\<lparr>since_clock := t0 + sint (Cooldown cfg) - 1000000000\<rparr>) s = s \<and>
         (sint (Cooldown cfg) < 2 ^ 63 - 1 \<longrightarrow>
          sent (main_actuate cfg desired current
                  (env\<lparr>since_clock := t0 + sint (Cooldown cfg) + 1000000000\<rparr>) s) =
            sent s @ [fst (scale cfg desired (scale_reply env))])"
proof (intro conjI impI)
  show "main_actuate cfg desired current
           (env\<lparr>since_clock := t0 + sint (Cooldown cfg) - 1000000000\<rparr>) s = s"
    using assms by (intro main_actuate_closed) (simp add: gate_iff)
next
  assume "sint (Cooldown cfg) < 2 ^ 63 - 1"
  then have "Cooldown cfg <s time_Since
       (since_clock (env\<lparr>since_clock := t0 + sint (Cooldown cfg) + 1000000000\<rparr>)) (lastScale s)"
    using assms by (simp add: gate_iff)
  from main_actuate_open [OF assms(1) this]
  show "sent (main_actuate cfg desired current
                  (env\<lparr>since_clock := t0 + sint (Cooldown cfg) + 1000000000\<rparr>) s) =
            sent s @ [fst (scale cfg desired (scale_reply env))]"
    by (simp split: option.splits)
qed

theorem cooldown_gate_witness:
  "(3::go_int) \<noteq> 2 \<and>
   main_actuate cfg_default 3 2
     \<lparr>fetch_reply = DoFailed (ErrOther ''unused''), since_clock = 119000000000,
      scale_reply = Decoded Map.empty, now_clock = 119000000001\<rparr>
     \<lparr>lastScale = 0, sent = []\<rparr> = \<lparr>lastScale = 0, sent = []\<rparr> \<and>
   sint (Cooldown cfg_default) < 2 ^ 63 - 1 \<and>
   sent (main_actuate cfg_default 3 2
     \<lparr>fetch_reply = DoFailed (ErrOther ''unused''), since_clock = 121000000000,
      scale_reply = Decoded Map.empty, now_clock = 121000000001\<rparr>
     \<lparr>lastScale = 0, sent = []\<rparr>) =
     [fst (scale cfg_default 3 (Decoded Map.empty))]"
  using cooldown_gate [of 3 2 "\<lparr>lastScale = 0, sent = []\<rparr>" 0 cfg_default
      "\<lparr>fetch_reply = DoFailed (ErrOther ''unused''), since_clock = 0,
        scale_reply = Decoded Map.empty, now_clock = 119000000001\<rparr>"]
    cooldown_gate [of 3 2 "\<lparr>lastScale = 0, sent = []\<rparr>" 0 cfg_default
      "\<lparr>fetch_reply = DoFailed (ErrOther ''unused''), since_clock = 0,
        scale_reply = Decoded Map.empty, now_clock = 121000000001\<rparr>"]
  by (simp add: cfg_default_def)

text \<open>
  Claim C10, as stated, fails for the same cooldown. With the largest duration as
  cooldown the loop starts at the clock reading 0 with \<open>lastScale\<close> = minus the cooldown;
  one second later, in the first cycle, a desired change from 2 to 3 replicas does not
  pass the condition: the state is as at the start and nothing was sent.
\<close>

theorem first_cycle_counterexample:
  "main_actuate (cfg_default\<lparr>Cooldown := 9223372036854775807\<rparr>) 3 2
     \<lparr>fetch_reply = DoFailed (ErrOther ''unused''), since_clock = 1000000000,
      scale_reply = Decoded Map.empty, now_clock = 1000000001\<rparr>
     (main_start (cfg_default\<lparr>Cooldown := 9223372036854775807\<rparr>) 0) =
   \<lparr>lastScale = - 9223372036854775807, sent = []\<rparr>"
  by (simp add: main_actuate_def main_start_def cfg_default_def time_Add_def time_Since_def
      time_Sub_def)

text \<open>
  Claim C10, amended. At the start \<open>lastScale\<close> is the clock reading plus the negated
  cooldown, which is the reading minus the cooldown for every cooldown but the smallest
  duration. For every cooldown below the largest duration, a desired replica count
  different from the current one passes the condition in the first cycle, whose clock
  reading is later than the one taken at the start: the mutation is sent, and it is the
  first request sent.
\<close>

theorem first_cycle_eligible:
  assumes "desired \<noteq> current"
    and "start_clock < since_clock env"
    and "sint (Cooldown cfg) < 2 ^ 63 - 1"
  shows "lastScale (main_start cfg start_clock) = time_Add start_clock (- Cooldown cfg) \<and>
         (- (2 ^ 63) < sint (Cooldown cfg) \<longrightarrow>
            lastScale (main_start cfg start_clock) = start_clock - sint (Cooldown cfg)) \<and>
         Cooldown cfg <s time_Since (since_clock env) (lastScale (main_start cfg start_clock)) \<and>
         sent (main_actuate cfg desired current env (main_start cfg start_clock)) =
           [fst (scale cfg desired (scale_reply env))]"
proof -
  have init: "lastScale (main_start cfg start_clock) = start_clock + sint (- Cooldown cfg)"
    by (simp add: main_start_def time_Add_def)
  have "sint (Cooldown cfg) < since_clock env - (start_clock + sint (- Cooldown cfg))"
    using assms(2) sint_ge [of "Cooldown cfg"] by (simp add: sint_neg_dur)
  with assms(3)
  have gate: "Cooldown cfg <s time_Since (since_clock env) (lastScale (main_start cfg start_clock))"
    by (simp add: gate_iff init)
  from main_actuate_open [OF assms(1) gate]
  have "sent (main_actuate cfg desired current env (main_start cfg start_clock)) =
           [fst (scale cfg desired (scale_reply env))]"
    by (simp add: main_start_def split: option.splits)
  with init gate show ?thesis by (simp add: sint_neg_dur time_Add_def)
qed

theorem first_cycle_eligible_witness:
  "(3::go_int) \<noteq> 2 \<and> (0::int) < 1000000000 \<and>
   - (2 ^ 63) < sint (Cooldown cfg_default) \<and> sint (Cooldown cfg_default) < 2 ^ 63 - 1 \<and>
   lastScale (main_start cfg_default 0) = - 120000000000 \<and>
   sent (main_actuate cfg_default 3 2
     \<lparr>fetch_reply = DoFailed (ErrOther ''unused''), since_clock = 1000000000,
      scale_reply = Decoded Map.empty, now_clock = 1000000001\<rparr>
     (main_start cfg_default 0)) = [fst (scale cfg_default 3 (Decoded Map.empty))]"
  using first_cycle_eligible [where desired = 3 and current = 2 and start_clock = 0
      and env = "\<lparr>fetch_reply = DoFailed (ErrOther ''unused''), since_clock = 1000000000,
        scale_reply = Decoded Map.empty, now_clock = 1000000001\<rparr>" and cfg = cfg_default]
  by (simp add: cfg_default_def)

text \<open>
  Claim C3. When \<open>scale\<close> returns an error, \<open>lastScale\<close> is after the conditional what it
  was before, and so it is after the whole cycle; where the condition held, the mutation
  request did go out. A failed attempt leaves the cooldown as it was.
\<close>

theorem failed_scale_keeps_timestamp:
  assumes "snd (scale cfg desired (scale_reply env)) = Some err"
  shows "lastScale (main_actuate cfg desired current env s) = lastScale s \<and>
         (desired \<noteq> current \<and> Cooldown cfg <s time_Since (since_clock env) (lastScale s) \<longrightarrow>
          sent (main_actuate cfg desired current env s) =
            sent s @ [fst (scale cfg desired (scale_reply env))]) \<and>
         lastScale (main_cycle cfg ops env s) = lastScale s"
proof -
  have fails: "snd (scale cfg d (scale_reply env)) = Some err" for d
    using assms by (simp add: scale_error_iff)
  have keep: "lastScale (main_actuate cfg d c env s) = lastScale s" for d c
  proof (cases "d \<noteq> c \<and> Cooldown cfg <s time_Since (since_clock env) (lastScale s)")
    case True
    then show ?thesis
      using main_actuate_open [of d c cfg env s] fails [of d] by simp
  next
    case False
    then show ?thesis using main_actuate_closed [of d c cfg env s] by simp
  qed
  have "sent (main_actuate cfg desired current env s) =
          sent s @ [fst (scale cfg desired (scale_reply env))]"
    if "desired \<noteq> current \<and> Cooldown cfg <s time_Since (since_clock env) (lastScale s)"
    using that main_actuate_open [of desired current cfg env s] assms by simp
  with keep show ?thesis by (simp add: main_cycle_def Let_def)
qed

theorem failed_scale_keeps_timestamp_witness:
  "snd (scale cfg_default 3 (DoFailed (ErrOther ''connection refused'')))
     = Some (ErrOther ''connection refused'') \<and>
   (3::go_int) \<noteq> 2 \<and>
   Cooldown cfg_default <s time_Since 500000000000 100000000000 \<and>
   main_actuate cfg_default 3 2
     \<lparr>fetch_reply = DoFailed (ErrOther ''unused''), since_clock = 500000000000,
      scale_reply = DoFailed (ErrOther ''connection refused''), now_clock = 500000000001\<rparr>
     \<lparr>lastScale = 100000000000, sent = []\<rparr> =
   \<lparr>lastScale = 100000000000,
    sent = [fst (scale cfg_default 3 (DoFailed (ErrOther ''connection refused'')))]\<rparr>"
  using failed_scale_keeps_timestamp [where cfg = cfg_default and desired = 3 and current = 2
      and env = "\<lparr>fetch_reply = DoFailed (ErrOther ''unused''), since_clock = 500000000000,
        scale_reply = DoFailed (ErrOther ''connection refused''), now_clock = 500000000001\<rparr>"
      and err = "ErrOther ''connection refused''"
      and s = "\<lparr>lastScale = 100000000000, sent = []\<rparr>" and ops = ops_exact]
  by (simp add: cfg_default_def scale_def doGraphQL_def main_actuate_def time_Since_def time_Sub_def)

text \<open>
  Claim C7. \<open>scale\<close> returns no error exactly when the exchange completed and the body
  decoded: it returns the error of a failed exchange and of a failed decoding, and no
  error for every decoded body, whatever the decoded map holds, a GraphQL \<open>errors\<close> entry
  included. On a decoded body the conditional then sets \<open>lastScale\<close> to the clock reading
  taken after the call. \<open>fetch\<close>, by contrast, returns the zero snapshot for a decoded
  response whose \<open>Errors\<close> is not empty.
\<close>

theorem scale_ignores_errors_payload:
  assumes "desired \<noteq> current"
    and "Cooldown cfg <s time_Since (since_clock env) (lastScale s)"
    and "scale_reply env = Decoded out"
  shows "(snd (scale cfg d reply) = None) = (\<exists>body. reply = Decoded body) \<and>
         snd (scale cfg d (DoFailed err)) = Some err \<and>
         snd (scale cfg d (DecodeFailed err)) = Some err \<and>
         snd (scale cfg desired (scale_reply env)) = None \<and>
         main_actuate cfg desired current env s =
           s\<lparr>lastScale := now_clock env,
              sent := sent s @ [fst (scale cfg desired (scale_reply env))]\<rparr> \<and>
         fetch ops (Decoded (resp\<lparr>Errors := e # es\<rparr>)) = \<lparr>avgCPU = Fin 0, replicas = 0\<rparr>"
proof -
  have criterion: "(snd (scale cfg d reply) = None) = (\<exists>body. reply = Decoded body)"
    by (cases reply) (simp_all add: scale_def doGraphQL_def)
  have failures: "snd (scale cfg d (DoFailed err)) = Some err"
    "snd (scale cfg d (DecodeFailed err)) = Some err"
    by (simp_all add: scale_def doGraphQL_def)
  have ok: "snd (scale cfg desired (scale_reply env)) = None"
    using assms(3) by (simp add: scale_def doGraphQL_def)
  with main_actuate_open [OF assms(1,2)]
  have "main_actuate cfg desired current env s =
           s\<lparr>lastScale := now_clock env,
              sent := sent s @ [fst (scale cfg desired (scale_reply env))]\<rparr>"
    by simp
  moreover have "fetch ops (Decoded (resp\<lparr>Errors := e # es\<rparr>)) = \<lparr>avgCPU = Fin 0, replicas = 0\<rparr>"
    by (simp add: fetch_def doGraphQL_def)
  ultimately show ?thesis using ok criterion failures by simp
qed

theorem scale_ignores_errors_payload_witness:
  "(3::go_int) \<noteq> 2 \<and>
   Cooldown cfg_default <s time_Since 500000000000 100000000000 \<and>
   snd (scale cfg_default 3 (DoFailed (ErrOther ''connection refused''))) =
     Some (ErrOther ''connection refused'') \<and>
   snd (scale cfg_default 3 (DecodeFailed (ErrOther ''unexpected EOF''))) =
     Some (ErrOther ''unexpected EOF'') \<and>
   snd (scale cfg_default 3
     (Decoded [''errors'' \<mapsto> JArray [JObject [(''message'', JString ''Not Authorized'')]],
               ''data'' \<mapsto> JNull])) = None \<and>
   lastScale (main_actuate cfg_default 3 2
     \<lparr>fetch_reply = DoFailed (ErrOther ''unused''), since_clock = 500000000000,
      scale_reply =
        Decoded [''errors'' \<mapsto> JArray [JObject [(''message'', JString ''Not Authorized'')]],
                 ''data'' \<mapsto> JNull],
      now_clock = 500000000001\<rparr>
     \<lparr>lastScale = 100000000000, sent = []\<rparr>) = 500000000001 \<and>
   fetch ops_exact
     (Decoded \<lparr>Data = \<lparr>Service = \<lparr>Instances = [\<lparr>Metrics = [\<lparr>Cpu = Fin 80\<rparr>]\<rparr>], Replicas = 2\<rparr>\<rparr>,
               Errors = [\<lparr>Message = ''Not Authorized''\<rparr>]\<rparr>) = \<lparr>avgCPU = Fin 0, replicas = 0\<rparr>"
  using scale_ignores_errors_payload [where desired = 3 and current = 2 and cfg = cfg_default
      and env = "\<lparr>fetch_reply = DoFailed (ErrOther ''unused''), since_clock = 500000000000,
        scale_reply =
          Decoded [''errors'' \<mapsto> JArray [JObject [(''message'', JString ''Not Authorized'')]],
                   ''data'' \<mapsto> JNull],
        now_clock = 500000000001\<rparr>"
      and s = "\<lparr>lastScale = 100000000000, sent = []\<rparr>"
      and out = "[''errors'' \<mapsto> JArray [JObject [(''message'', JString ''Not Authorized'')]],
        ''data'' \<mapsto> JNull]"
      and ops = ops_exact
      and resp = "\<lparr>Data = \<lparr>Service = \<lparr>Instances = [\<lparr>Metrics = [\<lparr>Cpu = Fin 80\<rparr>]\<rparr>], Replicas = 2\<rparr>\<rparr>,
        Errors = []\<rparr>"
      and e = "\<lparr>Message = ''Not Authorized''\<rparr>" and es = "[]"
      and d = 3 and err = "ErrOther ''connection refused''"
      and reply = "DoFailed (ErrOther ''connection refused'')"]
    scale_ignores_errors_payload [where desired = 3 and current = 2 and cfg = cfg_default
      and env = "\<lparr>fetch_reply = DoFailed (ErrOther ''unused''), since_clock = 500000000000,
        scale_reply = Decoded Map.empty, now_clock = 500000000001\<rparr>"
      and s = "\<lparr>lastScale = 100000000000, sent = []\<rparr>"
      and out = Map.empty and d = 3 and err = "ErrOther ''unexpected EOF''"]
  by (simp add: cfg_default_def time_Since_def time_Sub_def)

section \<open>Properties of \<open>fetch\<close>\<close>

text \<open>
  Claim C5. When the exchange fails, when the body does not decode, and when the decoded
  response carries a non-empty \<open>Errors\<close>, \<open>fetch\<close> returns the zero snapshot, with average
  utilization 0 and replica count 0. It returns: the cycle goes on with \<open>decide\<close> and the
  conditional on that snapshot, and the loop with the cycles that follow.
\<close>

theorem fetch_failure_zero_snapshot:
  "fetch ops (DoFailed err) = \<lparr>avgCPU = Fin 0, replicas = 0\<rparr> \<and>
   fetch ops (DecodeFailed err) = \<lparr>avgCPU = Fin 0, replicas = 0\<rparr> \<and>
   fetch ops (Decoded (resp\<lparr>Errors := e # es\<rparr>)) = \<lparr>avgCPU = Fin 0, replicas = 0\<rparr> \<and>
   run cfg ops (env\<lparr>fetch_reply := DoFailed err\<rparr> # envs) s =
     run cfg ops envs (main_actuate cfg (decide (Fin 0) 0 cfg) 0 env s) \<and>
   run cfg ops (env\<lparr>fetch_reply := DecodeFailed err\<rparr> # envs) s =
     run cfg ops envs (main_actuate cfg (decide (Fin 0) 0 cfg) 0 env s) \<and>
   run cfg ops (env\<lparr>fetch_reply := Decoded (resp\<lparr>Errors := e # es\<rparr>)\<rparr> # envs) s =
     run cfg ops envs (main_actuate cfg (decide (Fin 0) 0 cfg) 0 env s)"
proof -
  have zero: "fetch ops (DoFailed err) = \<lparr>avgCPU = Fin 0, replicas = 0\<rparr>"
    "fetch ops (DecodeFailed err) = \<lparr>avgCPU = Fin 0, replicas = 0\<rparr>"
    "fetch ops (Decoded (resp\<lparr>Errors := e # es\<rparr>)) = \<lparr>avgCPU = Fin 0, replicas = 0\<rparr>"
    by (simp_all add: fetch_def doGraphQL_def)
  have act: "main_actuate cfg d c (env\<lparr>fetch_reply := r\<rparr>) s = main_actuate cfg d c env s" for d c r
    by (simp add: main_actuate_def)
  show ?thesis
    by (simp add: zero main_cycle_def act)
qed

text \<open>
  Claim C9, as stated, fails. A response without errors whose three instances carry no
  points and whose replica count is 3 gives the snapshot with average 0 and 3 replicas,
  not 0 replicas; and \<open>decide\<close> on it, with the default policy, asks for 2 replicas, a
  scale-down.
\<close>

theorem zero_samples_counterexample:
  "fetch ops_exact
     (Decoded \<lparr>Data = \<lparr>Service = \<lparr>Instances = [\<lparr>Metrics = []\<rparr>, \<lparr>Metrics = []\<rparr>, \<lparr>Metrics = []\<rparr>],
                                  Replicas = 3\<rparr>\<rparr>,
               Errors = []\<rparr>) = \<lparr>avgCPU = Fin 0, replicas = 3\<rparr> \<and>
   decide (Fin 0) 3 cfg_default = 2"
  by (simp add: fetch_def doGraphQL_def decide_def f64_gt_def cfg_default_def word_sless_alt)

text \<open>
  Claim C9, amended. When the fetch succeeds (the body decodes and \<open>Errors\<close> is empty) and
  no instance carries a point, the snapshot has average utilization 0, whatever the
  float operations are (the division is not reached), and the replica count the response
  reports. \<open>decide\<close> on that snapshot does not go below the reported count when that
  count is at most the minimum; in particular, for a reported count of 0 and a minimum
  of at least 1, it returns 0 or 1, never a scale-down.
\<close>

theorem zero_samples_snapshot:
  assumes "Errors resp = []"
    and "concat (map Metrics (Instances (Service (Data resp)))) = []"
  shows "fetch ops (Decoded resp) = \<lparr>avgCPU = Fin 0, replicas = Replicas (Service (Data resp))\<rparr> \<and>
         (Replicas (Service (Data resp)) \<le>s Min_cfg cfg \<longrightarrow>
          \<not> decide (Fin 0) (Replicas (Service (Data resp))) cfg <s Replicas (Service (Data resp))) \<and>
         (Replicas (Service (Data resp)) = 0 \<and> 1 \<le>s Min_cfg cfg \<longrightarrow>
          decide (Fin 0) 0 cfg = (if f64_gt (Fin 0) (High cfg) \<and> 0 <s Max_cfg cfg then 1 else 0))"
proof (intro conjI impI)
  show "fetch ops (Decoded resp) = \<lparr>avgCPU = Fin 0, replicas = Replicas (Service (Data resp))\<rparr>"
    using assms by (simp add: fetch_def doGraphQL_def fetch_instances_no_samples)
next
  assume le: "Replicas (Service (Data resp)) \<le>s Min_cfg cfg"
  let ?r = "Replicas (Service (Data resp))"
  show "\<not> decide (Fin 0) ?r cfg <s ?r"
  proof (cases "f64_gt (Fin 0) (High cfg) \<and> ?r <s Max_cfg cfg")
    case True
    then have "sint (decide (Fin 0) ?r cfg) = sint ?r + 1"
      using sint_succ_below [of ?r "Max_cfg cfg"] by (simp add: decide_def)
    then show ?thesis by (simp add: word_sless_alt)
  next
    case False
    with le have "decide (Fin 0) ?r cfg = ?r"
      by (auto simp: decide_def word_sle_eq word_sless_alt)
    then show ?thesis by simp
  qed
next
  assume "Replicas (Service (Data resp)) = 0 \<and> 1 \<le>s Min_cfg cfg"
  then have "\<not> Min_cfg cfg <s 0" by (simp add: word_sle_eq word_sless_alt)
  then show "decide (Fin 0) 0 cfg = (if f64_gt (Fin 0) (High cfg) \<and> 0 <s Max_cfg cfg then 1 else 0)"
    by (simp add: decide_def)
qed

theorem zero_samples_snapshot_witness:
  "Errors \<lparr>Data = \<lparr>Service = \<lparr>Instances = [\<lparr>Metrics = []\<rparr>], Replicas = 0\<rparr>\<rparr>, Errors = []\<rparr> = [] \<and>
   fetch ops_exact (Decoded \<lparr>Data = \<lparr>Service = \<lparr>Instances = [\<lparr>Metrics = []\<rparr>], Replicas = 0\<rparr>\<rparr>,
                             Errors = []\<rparr>) = \<lparr>avgCPU = Fin 0, replicas = 0\<rparr> \<and>
   (0::go_int) \<le>s Min_cfg cfg_default \<and> 1 \<le>s Min_cfg cfg_default \<and>
   \<not> decide (Fin 0) 0 cfg_default <s 0 \<and>
   decide (Fin 0) 0 cfg_default = 0"
  using zero_samples_snapshot [where ops = ops_exact and cfg = cfg_default
      and resp = "\<lparr>Data = \<lparr>Service = \<lparr>Instances = [\<lparr>Metrics = []\<rparr>], Replicas = 0\<rparr>\<rparr>, Errors = []\<rparr>"]
  by (simp add: cfg_default_def word_sle_eq word_sless_alt f64_gt_def)

section \<open>Properties of \<open>loadConfig\<close>\<close>

text \<open>
  Claim C6, as stated, fails. With \<open>MIN_REPLICAS=abc\<close>, \<open>strconv.Atoi\<close> returns 0 and a
  syntax error; \<open>loadConfig\<close> drops the error and returns the default configuration with
  a minimum of 0 replicas, and \<open>main\<close> enters the loop.
\<close>

theorem config_error_counterexample:
  "Atoi lib_atoi ''abc'' = (0, Some ErrSyntax) \<and>
   loadConfig lib_atoi env_unparseable = Inr (cfg_default\<lparr>Min_cfg := 0\<rparr>) \<and>
   main lib_atoi ops_exact env_unparseable 0 [] =
     Inr \<lparr>lastScale = - 120000000000, sent = []\<rparr>"
  by (simp add: lib_atoi_def strconv_Atoi_def loadConfig_def must_def parseF_def parseI_def
      parseDur_def env_unparseable_def cfg_default_def main_def main_start_def time_Add_def)

text \<open>
  Claim C6, amended. \<open>loadConfig\<close> is fatal exactly when \<open>RAILWAY_TOKEN\<close> or \<open>SERVICE_ID\<close>
  is missing (unset or empty), and then \<open>main\<close> exits before the loop: whatever the
  cycles would be, its result is the fatal error. In every other case it returns a
  configuration, in which each optional field is its default when the variable is
  missing and otherwise the value its parser returned, the parser's error being
  dropped. The cycles take that configuration and have no error result.
\<close>

theorem config_fatal_iff_required_missing:
  "loadConfig lib env =
     (if env ''RAILWAY_TOKEN'' = [] then Inl (MissingEnv ''RAILWAY_TOKEN'')
      else if env ''SERVICE_ID'' = [] then Inl (MissingEnv ''SERVICE_ID'')
      else Inr \<lparr>Token = env ''RAILWAY_TOKEN'',
                ServiceID = env ''SERVICE_ID'',
                High = (if env ''CPU_HIGH'' = [] then Fin 75 else fst (ParseFloat lib (env ''CPU_HIGH''))),
                Low = (if env ''CPU_LOW'' = [] then Fin 30 else fst (ParseFloat lib (env ''CPU_LOW''))),
                Min_cfg = (if env ''MIN_REPLICAS'' = [] then 1 else fst (Atoi lib (env ''MIN_REPLICAS''))),
                Max_cfg = (if env ''MAX_REPLICAS'' = [] then 5 else fst (Atoi lib (env ''MAX_REPLICAS''))),
                Cooldown = (if env ''COOLDOWN'' = [] then 120000000000
                            else fst (ParseDuration lib (env ''COOLDOWN''))),
                Interval = (if env ''POLL_INTERVAL'' = [] then 30000000000
                            else fst (ParseDuration lib (env ''POLL_INTERVAL'')))\<rparr>) \<and>
   isl (main lib ops env start_clock envs) =
     (env ''RAILWAY_TOKEN'' = [] \<or> env ''SERVICE_ID'' = [])"
proof (cases "env ''RAILWAY_TOKEN'' = []")
  case True
  then have "loadConfig lib env = Inl (MissingEnv ''RAILWAY_TOKEN'')"
    by (simp add: loadConfig_def must_def)
  with True show ?thesis by (simp add: main_def)
next
  case token: False
  show ?thesis
  proof (cases "env ''SERVICE_ID'' = []")
    case True
    with token have "loadConfig lib env = Inl (MissingEnv ''SERVICE_ID'')"
      by (simp add: loadConfig_def must_def)
    with token True show ?thesis by (simp add: main_def)
  next
    case False
    with token show ?thesis
      by (simp add: loadConfig_def must_def parseF_def parseI_def parseDur_def main_def)
  qed
qed

end
